theory Spec2Isabelle
  imports Main
begin

section \<open>Transport data\<close>

text \<open>
  The request descriptor, the response and the structured error of the HTTP library, cut
  down to the fields the services read. A field the TypeScript declares optional (or the
  code guards with \<^verbatim>\<open>!x\<close>) is an \<open>option\<close>. Selector names carry a prefix
  where two records would otherwise share a field name: \<open>res_config\<close> is
  \<^verbatim>\<open>response.config\<close>, \<open>err_status\<close> is \<^verbatim>\<open>error.status\<close>.
\<close>

record axios_config =
  url :: "string option"
  http_method :: "string option"
  headers_Authorization :: "string option"

record axios_response =
  res_status :: int
  res_config :: "axios_config option"

record axios_error =
  err_config :: "axios_config option"
  err_response :: "axios_response option"
  err_status :: "int option"
  err_message :: string

text \<open>
  What a promise is rejected with: \<^verbatim>\<open>new Error(msg)\<close>, the library's error object,
  or a bare string. What it is fulfilled with: a response, or \<^verbatim>\<open>undefined\<close> when an
  \<^verbatim>\<open>async\<close> function runs off its end. \<open>Pending\<close> is a promise nobody settles.
\<close>

datatype reason = Error string | AxiosErr axios_error | Str string

datatype payload = Response axios_response | Undefined

datatype settled = Resolved payload | Rejected reason | Pending

text \<open>
  The transport is the environment: each call of \<^verbatim>\<open>axiosInstance.request\<close> takes the
  next outcome of a list; an exhausted list is a request that never settles. The trace
  records the timers armed and the requests sent, in order.
\<close>

datatype net_outcome = Succeeds axios_response | Fails axios_error

datatype io = SetTimeout nat | Request axios_config

section \<open>BaseAxiosService\<close>

definition DEFAULT_RETRY_COUNT :: int where
  "DEFAULT_RETRY_COUNT = 3"

definition DEFAULT_RETRY_DELAY :: nat where
  "DEFAULT_RETRY_DELAY = 10 * 1000"

definition SERVER_ERROR :: int where
  "SERVER_ERROR = 500"

definition UN_AUTHORIZED :: int where
  "UN_AUTHORIZED = 401"

definition isUndefined :: "'a option \<Rightarrow> bool" where
  "isUndefined v = (v = None)"

definition isErrorFromServer :: "int option \<Rightarrow> bool" where
  "isErrorFromServer statusCode =
     (if isUndefined statusCode then True
      else (case statusCode of Some n \<Rightarrow> SERVER_ERROR \<le> n | None \<Rightarrow> True))"

text \<open>
  \<^verbatim>\<open>retryRequest(response, retryCount)\<close>, as it runs on the unauthenticated client.
  The resend is made with \<^verbatim>\<open>this.axiosInstance.request\<close>, and the instance is the
  one on which \<^verbatim>\<open>initBasicResponseInterceptor\<close> has installed \<^verbatim>\<open>onFulfilled\<close> and
  \<^verbatim>\<open>onRejected\<close>. So \<open>request\<close> is the transport followed by the response
  interceptor: a fulfilled answer comes back as it is, a failed one is what
  \<^verbatim>\<open>onRejected\<close> makes of it, and \<^verbatim>\<open>onRejected\<close> hands a server-originated
  error to a retry chain of its own, started with the default budget. The
  \<^verbatim>\<open>.catch\<close> of \<^verbatim>\<open>retryRequest\<close> therefore runs only when the promise of
  \<open>request\<close> is rejected, and it passes the response it was called with, not the
  new error, to the next attempt.

  The assignment \<^verbatim>\<open>retryCount = 3\<close> in the exhausted branch writes the parameter of
  that one call, which nothing reads afterwards; it is kept as a binding. The timer is
  armed before \<^verbatim>\<open>response\<close> is looked at, so the missing-config rejection comes
  after one delay. Each function returns how its promise settles, the timers armed and
  requests sent on the way, and the transport outcomes not yet consumed.
\<close>

function retryRequest ::
    "axios_response option \<Rightarrow> int \<Rightarrow> net_outcome list \<Rightarrow> settled \<times> io list \<times> net_outcome list"
  and request :: "axios_config \<Rightarrow> net_outcome list \<Rightarrow> settled \<times> io list \<times> net_outcome list"
  and onRejected :: "axios_error \<Rightarrow> net_outcome list \<Rightarrow> settled \<times> io list \<times> net_outcome list"
where
  "retryRequest response retryCount net =
     (if retryCount \<le> 0 then
        (let retryCount' = (3::int) in (Rejected (Error ''Maximum Retry''), [], net))
      else
        (case response of
           None \<Rightarrow> (Rejected (Error ''No response config''), [SetTimeout DEFAULT_RETRY_DELAY], net)
         | Some r \<Rightarrow>
             (case res_config r of
                None \<Rightarrow>
                  (Rejected (Error ''No response config''), [SetTimeout DEFAULT_RETRY_DELAY], net)
              | Some c \<Rightarrow>
                  (case request c net of
                     (res, tr, net') \<Rightarrow>
                       (case res of
                          Resolved v \<Rightarrow> (Resolved v, SetTimeout DEFAULT_RETRY_DELAY # tr, net')
                        | Pending \<Rightarrow> (Pending, SetTimeout DEFAULT_RETRY_DELAY # tr, net')
                        | Rejected x \<Rightarrow>
                            (case retryRequest response (retryCount - 1) net' of
                               (res', tr', net'') \<Rightarrow>
                                 (res', SetTimeout DEFAULT_RETRY_DELAY # tr @ tr', net'')))))))"
| "request config net =
     (case net of
        [] \<Rightarrow> (Pending, [Request config], [])
      | Succeeds x # net' \<Rightarrow> (Resolved (Response x), [Request config], net')
      | Fails e # net' \<Rightarrow>
          (case onRejected e net' of (res, tr, net'') \<Rightarrow> (res, Request config # tr, net'')))"
| "onRejected error net =
     (if isErrorFromServer (err_status error)
      then retryRequest (err_response error) DEFAULT_RETRY_COUNT net
      else (Rejected (AxiosErr error), [], net))"
  by pat_completeness auto

text \<open>
  The three functions terminate because every request consumes one outcome of the
  transport, and a chain that sends nothing counts its budget down. The first half of
  the argument: no call hands back more outcomes than it was given.
\<close>

lemma remainder_le:
  shows "retryRequest_request_onRejected_dom (Inl (response, retryCount, net)) \<Longrightarrow>
           length (snd (snd (retryRequest response retryCount net))) \<le> length net"
    and "retryRequest_request_onRejected_dom (Inr (Inl (config, net))) \<Longrightarrow>
           length (snd (snd (request config net))) \<le> length net"
    and "retryRequest_request_onRejected_dom (Inr (Inr (error, net))) \<Longrightarrow>
           length (snd (snd (onRejected error net))) \<le> length net"
proof (induct rule: retryRequest_request_onRejected.pinduct)
  case (1 response retryCount net)
  note eq = retryRequest.psimps [OF "1.hyps"(1)]
  show ?case
  proof (cases "retryCount \<le> 0")
    case True
    then show ?thesis unfolding eq by simp
  next
    case pos: False
    show ?thesis
    proof (cases response)
      case None
      then show ?thesis unfolding eq using pos by simp
    next
      case (Some r)
      note resp = this
      show ?thesis
      proof (cases "res_config r")
        case None
        then show ?thesis unfolding eq using pos resp by simp
      next
        case (Some c)
        obtain res tr net' where req: "request c net = (res, tr, net')"
          by (cases "request c net") auto
        have le1: "length net' \<le> length net"
          using "1.hyps"(2) [OF pos resp Some] req by simp
        show ?thesis
        proof (cases res)
          case (Rejected x)
          obtain res' tr' net'' where again:
            "retryRequest response (retryCount - 1) net' = (res', tr', net'')"
            by (cases "retryRequest response (retryCount - 1) net'") auto
          have "length net'' \<le> length net'"
            using "1.hyps"(3) [OF pos resp Some, of res "(tr, net')" tr net' x]
              req Rejected again by simp
          then show ?thesis
            unfolding eq using pos resp Some req Rejected again le1 by simp
        next
          case (Resolved v)
          then show ?thesis unfolding eq using pos resp Some req le1 by simp
        next
          case Pending
          then show ?thesis unfolding eq using pos resp Some req le1 by simp
        qed
      qed
    qed
  qed
next
  case (2 config net)
  then show ?case
    by (auto simp: request.psimps split: list.splits net_outcome.splits prod.splits)
next
  case (3 error net)
  then show ?case
    by (auto simp: onRejected.psimps)
qed

termination retryRequest
proof (relation "inv_image (less_than <*lex*> less_than)
    (\<lambda>x. case x of
        Inl (response, retryCount, net) \<Rightarrow> (length net, 1 + nat retryCount)
      | Inr (Inl (config, net)) \<Rightarrow> (length net, 0)
      | Inr (Inr (error, net)) \<Rightarrow> (length net, 5))")
  show "wf (inv_image (less_than <*lex*> less_than)
    (\<lambda>x. case x of
        Inl (response, retryCount, net) \<Rightarrow> (length net, 1 + nat retryCount)
      | Inr (Inl (config, (net :: net_outcome list))) \<Rightarrow> (length net, 0)
      | Inr (Inr (error, net)) \<Rightarrow> (length net, 5)))"
    by (intro wf_inv_image wf_lex_prod wf_less_than)
next
  fix response :: "axios_response option" and retryCount :: int and net :: "net_outcome list"
    and c res y tr net' x
  assume "\<not> retryCount \<le> 0" and "(res, y) = request c net" and "(tr, net') = y"
    and "retryRequest_request_onRejected_dom (Inr (Inl (c, net)))"
  then show "(Inl (response, retryCount - 1, net'), Inl (response, retryCount, net))
     \<in> inv_image (less_than <*lex*> less_than)
         (\<lambda>x. case x of
             Inl (response, retryCount, net) \<Rightarrow> (length net, 1 + nat retryCount)
           | Inr (Inl (config, net)) \<Rightarrow> (length net, 0)
           | Inr (Inr (error, net)) \<Rightarrow> (length net, 5))"
    using remainder_le(2) [of c net] by (cases "request c net") auto
qed (simp_all add: DEFAULT_RETRY_COUNT_def)

declare retryRequest.simps [simp del] request.simps [simp del] onRejected.simps [simp del]

text \<open>
  \<^verbatim>\<open>!error.config || !error.response || !error.response.status\<close>: a status of 0 is
  falsy as well.
\<close>

definition isErrorFromRequest :: "axios_error \<Rightarrow> bool" where
  "isErrorFromRequest error =
     (err_config error = None \<or> err_response error = None \<or>
      (case err_response error of Some r \<Rightarrow> res_status r = 0 | None \<Rightarrow> True))"

definition isUnexpectedError :: "int option \<Rightarrow> bool" where
  "isUnexpectedError statusCode =
     (if isUndefined statusCode then True
      else (case statusCode of
              Some n \<Rightarrow> n < SERVER_ERROR \<and> n \<noteq> UN_AUTHORIZED
            | None \<Rightarrow> True))"

text \<open>
  The unauthorized test has no function of its own in the source; it is the comparison
  \<^verbatim>\<open>status === this.statusCode.UN_AUTHORIZED\<close> of the 401 branch.
\<close>

definition isUnAuthorized :: "int option \<Rightarrow> bool" where
  "isUnAuthorized statusCode = (statusCode = Some UN_AUTHORIZED)"

text \<open>How many of the three classifications a status satisfies.\<close>

definition classifications :: "int option \<Rightarrow> nat" where
  "classifications statusCode =
     length (filter id
       [isErrorFromServer statusCode, isUnexpectedError statusCode, isUnAuthorized statusCode])"

section \<open>The request interceptor manager of the transport instance\<close>

text \<open>
  \<^verbatim>\<open>axiosInstance.interceptors.request\<close> as the HTTP library implements it: an array of
  handlers, \<^verbatim>\<open>use\<close> pushes one and returns its index, \<^verbatim>\<open>eject(id)\<close> overwrites an
  existing slot with null, \<^verbatim>\<open>clear()\<close> empties the array. \<open>AuthBearer t\<close> is the
  interceptor that stamps \<^verbatim>\<open>Authorization: Bearer t\<close>; \<open>Foreign k\<close> is any
  interceptor other code installed through \<^verbatim>\<open>getInstance()\<close>.
\<close>

datatype request_interceptor = AuthBearer string | Foreign nat

type_synonym handlers = "request_interceptor option list"

definition use :: "request_interceptor \<Rightarrow> handlers \<Rightarrow> nat \<times> handlers" where
  "use h hs = (length hs, hs @ [Some h])"

definition eject :: "nat \<Rightarrow> handlers \<Rightarrow> handlers" where
  "eject i hs = (if i < length hs \<and> hs ! i \<noteq> None then hs[i := None] else hs)"

definition clear :: "handlers \<Rightarrow> handlers" where
  "clear hs = []"

section \<open>CreateAxiosService\<close>

text \<open>
  The effects the service has on its collaborators, logged in order: the console, the
  token-reissue call (a POST made with the global library function, not the instance),
  the cookie helpers, the page reload, requests made on the instance (with the queued
  promise their outcome is piped to, if any), and calls of the interceptor manager.
\<close>

datatype effect =
    Console_error
  | Reissue_POST string
  | SetTokenInCookie string string
  | RemoveTokenFromCookie
  | Location_reload
  | Instance_request axios_config "nat option"
  | Interceptors_eject nat
  | Interceptors_clear

text \<open>
  A queue item is the request descriptor with the \<^verbatim>\<open>resolve\<close>/\<^verbatim>\<open>reject\<close> pair of the
  promise handed back to the caller; the pair is named by the number of that promise.
\<close>

record auth_service =
  apiRequestMicrotaskQueueItem :: "(axios_config \<times> nat) list"
  authRequestInterceptorId :: "nat option"
  isApiRequestAuthLocked :: bool
  requestHandlers :: handlers
  effects :: "effect list"
  promises :: nat

text \<open>
  What the interceptor hands back: a settled promise, the promise of a retry chain, the
  pending promise of a queue item, the promise of a replay on the instance; or the
  handler is suspended at \<^verbatim>\<open>await axios(...)\<close> and has handed back nothing yet. The retry
  chain of this client is handed back as such and not run here: its resends go through
  the instance that carries \<^verbatim>\<open>onAuthReject\<close>.
\<close>

datatype handler_result =
    Settled settled
  | RetryRequest "axios_response option"
  | Queued nat
  | AwaitingReissue axios_config
  | Replay axios_config

definition formatAuthorizationHeader :: "string \<Rightarrow> string" where
  "formatAuthorizationHeader accessToken = ''Bearer '' @ accessToken"

definition logEffects :: "effect list \<Rightarrow> auth_service \<Rightarrow> auth_service" where
  "logEffects es st = st\<lparr>effects := effects st @ es\<rparr>"

definition setTokenInCookie :: "string \<Rightarrow> string \<Rightarrow> auth_service \<Rightarrow> auth_service" where
  "setTokenInCookie accessToken refreshToken st = logEffects [SetTokenInCookie accessToken refreshToken] st"

definition removeTokenFromCookie :: "auth_service \<Rightarrow> auth_service" where
  "removeTokenFromCookie st = logEffects [RemoveTokenFromCookie] st"

definition setAuthRequestInterceptor :: "string \<Rightarrow> auth_service \<Rightarrow> auth_service" where
  "setAuthRequestInterceptor accessToken st =
     (let st1 = (if authRequestInterceptorId st \<noteq> None
                 then logEffects [Interceptors_clear] (st\<lparr>requestHandlers := clear (requestHandlers st)\<rparr>)
                 else st)
      in (case use (AuthBearer accessToken) (requestHandlers st1) of
            (i, hs) \<Rightarrow> st1\<lparr>requestHandlers := hs, authRequestInterceptorId := Some i\<rparr>))"

definition removeAuthRequestInterceptor :: "auth_service \<Rightarrow> auth_service" where
  "removeAuthRequestInterceptor st =
     (case authRequestInterceptorId st of
        None \<Rightarrow> st
      | Some i \<Rightarrow>
          removeTokenFromCookie
            ((logEffects [Interceptors_eject i] st)
               \<lparr>requestHandlers := eject i (requestHandlers st), authRequestInterceptorId := None\<rparr>))"

text \<open>
  The refresh credential. The source binds the constant below where the cookie read is
  meant to go; the handler is written over any credential, and \<open>onAuthReject\<close> is the
  handler at the constant.
\<close>

definition refreshTokenCookie :: string where
  "refreshTokenCookie = ''REFRESH_TOKEN''"

text \<open>The \<^verbatim>\<open>finally\<close> block, and the \<^verbatim>\<open>catch\<close> block followed by it.\<close>

definition finallyBlock :: "auth_service \<Rightarrow> auth_service" where
  "finallyBlock st = st\<lparr>isApiRequestAuthLocked := False\<rparr>"

definition catchBlock :: "auth_service \<Rightarrow> auth_service" where
  "catchBlock st = logEffects [Location_reload] (removeTokenFromCookie (logEffects [Console_error] st))"

text \<open>
  \<^verbatim>\<open>onAuthReject\<close> up to its first suspension. In the 401 branch every way out of the
  \<^verbatim>\<open>try\<close> block passes through \<^verbatim>\<open>finally\<close>, the early \<^verbatim>\<open>return\<close> of the locked
  case included; only the handler waiting at \<^verbatim>\<open>await\<close> has not reached it yet.
\<close>

definition onAuthRejectWith ::
  "string \<Rightarrow> axios_error \<Rightarrow> auth_service \<Rightarrow> handler_result \<times> auth_service"
where
  "onAuthRejectWith cookie error st0 =
     (let st = logEffects [Console_error] st0 in
      if isErrorFromRequest error then (Settled (Rejected (AxiosErr error)), st)
      else if isErrorFromServer (err_status error) then (RetryRequest (err_response error), st)
      else if isUnexpectedError (err_status error) then (Settled (Rejected (AxiosErr error)), st)
      else
        (case err_config error of
           None \<Rightarrow> (Settled (Resolved Undefined), st)
         | Some config \<Rightarrow>
             if err_status error = Some UN_AUTHORIZED then
               (if isApiRequestAuthLocked st then
                  (Queued (promises st),
                   finallyBlock (st\<lparr>apiRequestMicrotaskQueueItem :=
                                  apiRequestMicrotaskQueueItem st @ [(config, promises st)],
                                promises := Suc (promises st)\<rparr>))
                else
                  (let st1 = st\<lparr>isApiRequestAuthLocked := True\<rparr> in
                   if cookie \<noteq> [] then (AwaitingReissue config, logEffects [Reissue_POST cookie] st1)
                   else (Settled (Resolved Undefined), finallyBlock (catchBlock st1))))
             else (Settled (Resolved Undefined), st)))"

definition onAuthReject :: "axios_error \<Rightarrow> auth_service \<Rightarrow> handler_result \<times> auth_service" where
  "onAuthReject = onAuthRejectWith refreshTokenCookie"

text \<open>
  The answer of the reissue call: the call is rejected, or it is fulfilled with a body
  that is either the token pair or falsy.
\<close>

datatype reissue = ReissueRejected | ReissueResponse "(string \<times> string) option"

text \<open>
  \<^verbatim>\<open>onAuthReject\<close> from \<^verbatim>\<open>await\<close> on, for the handler that was suspended with
  \<open>config\<close>. The replay of \<open>config\<close> is returned without \<^verbatim>\<open>await\<close>, so its
  outcome is not seen by \<^verbatim>\<open>catch\<close>.
\<close>

definition onAuthReject_resume ::
  "axios_config \<Rightarrow> reissue \<Rightarrow> auth_service \<Rightarrow> handler_result \<times> auth_service"
where
  "onAuthReject_resume config answer st =
     (case answer of
        ReissueRejected \<Rightarrow> (Settled (Resolved Undefined), finallyBlock (catchBlock st))
      | ReissueResponse None \<Rightarrow> (Settled (Resolved Undefined), finallyBlock st)
      | ReissueResponse (Some (accessToken, refreshToken)) \<Rightarrow>
          (let config' = config\<lparr>headers_Authorization :=
                                   Some (formatAuthorizationHeader accessToken)\<rparr>;
               st1 = setTokenInCookie accessToken refreshToken st;
               st2 = logEffects (map (\<lambda>(c, p). Instance_request c (Some p))
                            (apiRequestMicrotaskQueueItem st1)) st1;
               st3 = st2\<lparr>apiRequestMicrotaskQueueItem := []\<rparr>;
               st4 = setAuthRequestInterceptor accessToken st3;
               st5 = logEffects [Instance_request config' None] st4
           in (Replay config', finallyBlock st5)))"

definition reissueCalls :: "auth_service \<Rightarrow> nat" where
  "reissueCalls st = length (filter (\<lambda>e. case e of Reissue_POST _ \<Rightarrow> True | _ \<Rightarrow> False) (effects st))"

definition reloads :: "auth_service \<Rightarrow> nat" where
  "reloads st = count_list (effects st) Location_reload"

definition tokenRemovals :: "auth_service \<Rightarrow> nat" where
  "tokenRemovals st = count_list (effects st) RemoveTokenFromCookie"

definition ejections :: "auth_service \<Rightarrow> nat" where
  "ejections st =
     length (filter (\<lambda>e. case e of Interceptors_eject _ \<Rightarrow> True | _ \<Rightarrow> False) (effects st))"

text \<open>A freshly constructed service, and a 401 answer to a GET of \<^verbatim>\<open>/orders\<close>.\<close>

definition newService :: auth_service where
  "newService =
     \<lparr>apiRequestMicrotaskQueueItem = [], authRequestInterceptorId = None,
      isApiRequestAuthLocked = False, requestHandlers = [], effects = [], promises = 0\<rparr>"

definition ordersConfig :: axios_config where
  "ordersConfig = \<lparr>url = Some ''/orders'', http_method = Some ''get'', headers_Authorization = None\<rparr>"

definition orders401 :: axios_error where
  "orders401 =
     \<lparr>err_config = Some ordersConfig,
      err_response = Some \<lparr>res_status = 401, res_config = Some ordersConfig\<rparr>,
      err_status = Some 401, err_message = ''Request failed with status code 401''\<rparr>"

text \<open>A service whose reissue call is outstanding, with two requests queued behind it.\<close>

definition twoQueued :: auth_service where
  "twoQueued =
     newService\<lparr>apiRequestMicrotaskQueueItem := [(ordersConfig, 0), (ordersConfig, 1)],
                isApiRequestAuthLocked := True, promises := 2\<rparr>"

text \<open>A 500 answer to the same request, and a 200 answer.\<close>

definition orders500 :: axios_error where
  "orders500 =
     \<lparr>err_config = Some ordersConfig,
      err_response = Some \<lparr>res_status = 500, res_config = Some ordersConfig\<rparr>,
      err_status = Some 500, err_message = ''Request failed with status code 500''\<rparr>"

definition orders200 :: axios_response where
  "orders200 = \<lparr>res_status = 200, res_config = Some ordersConfig\<rparr>"

text \<open>A 404 answer to the same request.\<close>

definition orders404 :: axios_error where
  "orders404 =
     \<lparr>err_config = Some ordersConfig,
      err_response = Some \<lparr>res_status = 404, res_config = Some ordersConfig\<rparr>,
      err_status = Some 404, err_message = ''Request failed with status code 404''\<rparr>"

text \<open>The trace of \<open>n\<close> resends of a descriptor, each after the retry delay.\<close>

definition resends :: "nat \<Rightarrow> axios_config \<Rightarrow> io list" where
  "resends n config = concat (replicate n [SetTimeout DEFAULT_RETRY_DELAY, Request config])"

text \<open>A network failure: no response was received, so there is no status either.\<close>

definition networkError :: axios_error where
  "networkError =
     \<lparr>err_config = Some ordersConfig, err_response = None, err_status = None,
      err_message = ''Network Error''\<rparr>"

section \<open>AdminStore and AdminCreateAxiosService\<close>

definition SIGNIN :: string where
  "SIGNIN = ''/signin''"

definition redirectTime :: nat where
  "redirectTime = 5000"

text \<open>
  A notification is its kind and its message. The countdown message is a template over
  the number of seconds (session expired, automatic move to the sign-in page after that
  many seconds); it is kept as a constructor of its own.
\<close>

datatype toast_type = Toast_success | Toast_error

datatype toast_message = Literal string | ExpiredCountdown nat

text \<open>
  The fields of the store, then its surroundings: the one session-storage slot the store
  uses, the path of the page, the timers of the page that are armed and have neither
  fired nor been cleared (handle and delay), how many timers were ever armed (the next
  handle), the handles \<^verbatim>\<open>clearTimeout\<close> was called with, the notifications emitted,
  the number of console reports and the navigations made by the redirect. A timer handle
  is an object, so \<^verbatim>\<open>if (this.redirectTimeout)\<close> asks whether the field is not null.
\<close>

record admin_service =
  isRedirectingBy401Unauthorized :: bool
  redirectTimeout :: "nat option"
  successMessage :: "string option"
  errorMessage :: "string option"
  sessionStorage_UNAUTHORIZED :: "string option"
  location_pathname :: string
  pendingTimers :: "(nat \<times> nat) list"
  timersArmed :: nat
  timersCleared :: "nat list"
  toasts :: "(toast_type \<times> toast_message) list"
  consoleErrors :: nat
  navigations :: "string list"

text \<open>
  The constructor reads the redirect state back from session storage:
  \<^verbatim>\<open>Boolean(sessionStorage.getItem(...))\<close> is true for a stored, non-empty string.
\<close>

definition newAdmin :: "string option \<Rightarrow> string \<Rightarrow> admin_service" where
  "newAdmin stored path =
     \<lparr>isRedirectingBy401Unauthorized = (case stored of None \<Rightarrow> False | Some v \<Rightarrow> v \<noteq> []),
      redirectTimeout = None, successMessage = None, errorMessage = None,
      sessionStorage_UNAUTHORIZED = stored, location_pathname = path,
      pendingTimers = [], timersArmed = 0, timersCleared = [], toasts = [],
      consoleErrors = 0, navigations = []\<rparr>"

definition executeUnAuthorized :: "admin_service \<Rightarrow> admin_service" where
  "executeUnAuthorized st = st\<lparr>sessionStorage_UNAUTHORIZED := Some ''true''\<rparr>"

definition resetUnAuthorizedState :: "admin_service \<Rightarrow> admin_service" where
  "resetUnAuthorizedState st = st\<lparr>sessionStorage_UNAUTHORIZED := None\<rparr>"

definition setMessageOption :: "string option \<Rightarrow> string option \<Rightarrow> admin_service \<Rightarrow> admin_service" where
  "setMessageOption s e st = st\<lparr>successMessage := s, errorMessage := e\<rparr>"

definition generateSuccessMessage :: "toast_message \<Rightarrow> admin_service \<Rightarrow> admin_service" where
  "generateSuccessMessage m st = st\<lparr>toasts := toasts st @ [(Toast_success, m)]\<rparr>"

definition generateErrorMessage :: "toast_message \<Rightarrow> admin_service \<Rightarrow> admin_service" where
  "generateErrorMessage m st = st\<lparr>toasts := toasts st @ [(Toast_error, m)]\<rparr>"

definition consoleError :: "admin_service \<Rightarrow> admin_service" where
  "consoleError st = st\<lparr>consoleErrors := Suc (consoleErrors st)\<rparr>"

definition clearTimeout :: "nat \<Rightarrow> admin_service \<Rightarrow> admin_service" where
  "clearTimeout h st =
     st\<lparr>pendingTimers := filter (\<lambda>t. fst t \<noteq> h) (pendingTimers st),
        timersCleared := timersCleared st @ [h]\<rparr>"

definition setTimeout :: "nat \<Rightarrow> admin_service \<Rightarrow> nat \<times> admin_service" where
  "setTimeout delay st =
     (timersArmed st,
      st\<lparr>pendingTimers := pendingTimers st @ [(timersArmed st, delay)],
         timersArmed := Suc (timersArmed st)\<rparr>)"

definition isSigninPage :: "admin_service \<Rightarrow> bool" where
  "isSigninPage st = (location_pathname st = SIGNIN)"

definition verifySigninConfig :: "axios_config \<Rightarrow> bool" where
  "verifySigninConfig config = (url config = Some SIGNIN)"

text \<open>
  The fulfilled handler of \<^verbatim>\<open>initAdminRequestInterceptor\<close>: the descriptor goes on to
  the transport, or the chain is rejected before the transport is reached.
\<close>

datatype intercepted = Continue axios_config | Abort reason

definition adminRequestFulfilled :: "axios_config \<Rightarrow> admin_service \<Rightarrow> intercepted" where
  "adminRequestFulfilled config st =
     (if isRedirectingBy401Unauthorized st then
        (if verifySigninConfig config then Continue config
         else Abort (Str ''Redirecting by 401 Unauthorized''))
      else Continue config)"

text \<open>
  One call on the instance as far as the transport: the request interceptor runs first,
  and the transport is called (one outcome consumed, one request in the trace) only with
  the descriptor the interceptor let through.
\<close>

definition adminDispatch ::
  "axios_config \<Rightarrow> admin_service \<Rightarrow> net_outcome list \<Rightarrow> (reason + net_outcome option) \<times> io list \<times> net_outcome list"
where
  "adminDispatch config st net =
     (case adminRequestFulfilled config st of
        Abort r \<Rightarrow> (Inl r, [], net)
      | Continue c \<Rightarrow>
          (case net of
             [] \<Rightarrow> (Inr None, [Request c], [])
           | out # net' \<Rightarrow> (Inr (Some out), [Request c], net')))"

text \<open>The fulfilled handler of \<^verbatim>\<open>initAdminResponseInterceptor\<close>.\<close>

definition adminResponseFulfilled :: "axios_response \<Rightarrow> admin_service \<Rightarrow> settled \<times> admin_service" where
  "adminResponseFulfilled response st =
     (let st1 = resetUnAuthorizedState (st\<lparr>isRedirectingBy401Unauthorized := False\<rparr>);
          st2 = (case successMessage st1 of
                   None \<Rightarrow> st1
                 | Some m \<Rightarrow> if m \<noteq> [] then generateSuccessMessage (Literal m) st1 else st1)
      in (Resolved (Response response), st2))"

text \<open>
  The rejected handler of \<^verbatim>\<open>initAdminResponseInterceptor\<close> in three parts. First
  what every classified error goes through: the console report, unless the redirect
  state is set, and the notification of the error message registered for the call.
\<close>

definition reportError :: "admin_service \<Rightarrow> admin_service" where
  "reportError st =
     (let st1 = (if isRedirectingBy401Unauthorized st then st else consoleError st)
      in (case errorMessage st1 of
            None \<Rightarrow> st1
          | Some m \<Rightarrow> if m \<noteq> [] then generateErrorMessage (Literal m) st1 else st1))"

text \<open>
  Then the body of \<^verbatim>\<open>if (!this.isRedirectingBy401Unauthorized)\<close> in the 401 branch:
  the timer held in \<^verbatim>\<open>redirectTimeout\<close> is cleared, the state is marked in storage and
  in memory, the countdown is announced, and a new timer is armed and kept.
\<close>

definition scheduleRedirect :: "admin_service \<Rightarrow> admin_service" where
  "scheduleRedirect st =
     (let st1 = (case redirectTimeout st of None \<Rightarrow> st | Some h \<Rightarrow> clearTimeout h st);
          st2 = (executeUnAuthorized st1)\<lparr>isRedirectingBy401Unauthorized := True\<rparr>;
          seconds = redirectTime div 1000;
          st3 = generateErrorMessage (ExpiredCountdown seconds) st2
      in (case setTimeout redirectTime st3 of (h, st4) \<Rightarrow> st4\<lparr>redirectTimeout := Some h\<rparr>))"

text \<open>
  The handler itself, branch by branch. \<^verbatim>\<open>error.response?.status\<close> is absent without a
  response, and \<^verbatim>\<open>!statusCode\<close> also holds for 0.
\<close>

definition adminResponseRejected :: "axios_error \<Rightarrow> admin_service \<Rightarrow> settled \<times> admin_service" where
  "adminResponseRejected error st =
     (case map_option res_status (err_response error) of
        None \<Rightarrow> (Rejected (AxiosErr error), st)
      | Some statusCode \<Rightarrow>
          if statusCode = 0 then (Rejected (AxiosErr error), st)
          else
            (let st2 = reportError st in
               if isErrorFromRequest error then
                 (Rejected (AxiosErr error), generateErrorMessage (Literal ''Request Error'') st2)
               else if isErrorFromServer (Some statusCode) then
                 (Rejected (AxiosErr error),
                  generateErrorMessage (Literal ''Internal Server Error'') st2)
               else if isUnexpectedError (Some statusCode) then
                 (Rejected (AxiosErr error),
                  generateErrorMessage (Literal (err_message error)) st2)
               else if isSigninPage st2 then
                 (Rejected (AxiosErr error), executeUnAuthorized st2)
               else if isRedirectingBy401Unauthorized st2 then
                 (Rejected (AxiosErr error), st2)
               else (Rejected (AxiosErr error), scheduleRedirect st2)))"

text \<open>
  The callback armed by the 401 branch, run when timer \<open>h\<close> fires. A timer that is no
  longer pending does not fire; one that fires is no longer pending. Assigning
  \<^verbatim>\<open>window.location.href\<close> moves the page to the sign-in path.
\<close>

definition redirectCallback :: "admin_service \<Rightarrow> admin_service" where
  "redirectCallback st =
     (if isSigninPage st then
        (case redirectTimeout st of None \<Rightarrow> st | Some h \<Rightarrow> clearTimeout h st)
      else st\<lparr>location_pathname := SIGNIN, navigations := navigations st @ [SIGNIN]\<rparr>)"

definition timerFires :: "nat \<Rightarrow> admin_service \<Rightarrow> admin_service" where
  "timerFires h st =
     (if h \<in> fst ` set (pendingTimers st)
      then redirectCallback (st\<lparr>pendingTimers := filter (\<lambda>t. fst t \<noteq> h) (pendingTimers st)\<rparr>)
      else st)"

text \<open>
  What can happen to an administrative client, one event at a time: a call registers its
  message option, a response or an error reaches the response interceptor, a timer
  fires, the user moves to another page.
\<close>

datatype admin_event =
    Calls "string option" "string option"
  | Fulfilled axios_response
  | Failed axios_error
  | TimerFires nat
  | Navigates string

fun adminStep :: "admin_service \<Rightarrow> admin_event \<Rightarrow> admin_service" where
  "adminStep st (Calls s e) = setMessageOption s e st"
| "adminStep st (Fulfilled r) = snd (adminResponseFulfilled r st)"
| "adminStep st (Failed e) = snd (adminResponseRejected e st)"
| "adminStep st (TimerFires h) = timerFires h st"
| "adminStep st (Navigates p) = st\<lparr>location_pathname := p\<rparr>"

definition adminRun :: "admin_event list \<Rightarrow> admin_service \<Rightarrow> admin_service" where
  "adminRun evs st = foldl adminStep st evs"

text \<open>An administrative client on the orders page, with nothing stored.\<close>

definition ordersAdmin :: admin_service where
  "ordersAdmin = newAdmin None ''/orders''"

text \<open>
  At most one timer is pending, and it is the one held in \<^verbatim>\<open>redirectTimeout\<close>.
\<close>

definition oneTimer :: "admin_service \<Rightarrow> bool" where
  "oneTimer st =
     (pendingTimers st = [] \<or> map (\<lambda>t. Some (fst t)) (pendingTimers st) = [redirectTimeout st])"

section \<open>Classification of a status\<close>

theorem undefined_status_two_classes:
  "isErrorFromServer None \<and> isUnexpectedError None \<and> classifications None = 2"
  by (simp add: isErrorFromServer_def isUnexpectedError_def isUnAuthorized_def isUndefined_def
      classifications_def)

text \<open>
  C2, amended. An undefined status and every status from 500 on is server-originated, 401
  is unauthorized, every other defined status below 500 is unexpected.
  \<^verbatim>\<open>isUnexpectedError\<close> holds exactly for an undefined status and for a defined status
  below 500 other than 401. Every defined status satisfies exactly one of the three
  classifications; the undefined status satisfies two of them, server-originated and
  unexpected.
\<close>

theorem classification_of_status:
  "isErrorFromServer None \<and> isUnexpectedError None \<and> \<not> isUnAuthorized None \<and>
   isErrorFromServer (Some n) = (500 \<le> n) \<and>
   isUnAuthorized (Some n) = (n = 401) \<and>
   isUnexpectedError (Some n) = (n < 500 \<and> n \<noteq> 401) \<and>
   classifications (Some n) = 1"
  by (simp add: isErrorFromServer_def isUnexpectedError_def isUnAuthorized_def isUndefined_def
      classifications_def SERVER_ERROR_def UN_AUTHORIZED_def)

theorem classification_of_status_witness:
  "isErrorFromServer (Some 503) \<and> \<not> isUnexpectedError (Some 503) \<and>
   isUnexpectedError (Some 404) \<and> \<not> isErrorFromServer (Some 404) \<and>
   isUnAuthorized (Some 401) \<and> \<not> isUnexpectedError (Some 401) \<and>
   classifications (Some 401) = 1"
  using classification_of_status [of 503] classification_of_status [of 404]
    classification_of_status [of 401]
  by simp

section \<open>The retry chain\<close>

lemma orders500_simps:
  "isErrorFromServer (err_status orders500)"
  "err_response orders500 = Some \<lparr>res_status = 500, res_config = Some ordersConfig\<rparr>"
  by (simp_all add: orders500_def isErrorFromServer_def isUndefined_def SERVER_ERROR_def)

lemma orders404_simps:
  "\<not> isErrorFromServer (err_status orders404)"
  by (simp_all add: orders404_def isErrorFromServer_def isUndefined_def SERVER_ERROR_def)

text \<open>
  While every resend is answered 500, the chain goes on: after \<open>n\<close> such answers
  \<open>n + 1\<close> resends have been made and the promise is still pending.
\<close>

lemma retryRequest_persistent_500:
  "0 < retryCount \<Longrightarrow>
     retryRequest (err_response orders500) retryCount (replicate n (Fails orders500)) =
       (Pending, resends (Suc n) ordersConfig, [])"
proof (induction n arbitrary: retryCount)
  case 0
  then show ?case
    by (simp add: retryRequest.simps request.simps orders500_simps resends_def)
next
  case (Suc n)
  have nested: "onRejected orders500 (replicate n (Fails orders500)) =
      (Pending, resends (Suc n) ordersConfig, [])"
    using Suc.IH [of DEFAULT_RETRY_COUNT]
    by (simp add: onRejected.simps orders500_simps DEFAULT_RETRY_COUNT_def)
  show ?case
    using Suc.prems
    by (simp add: retryRequest.simps [of _ retryCount] request.simps nested orders500_simps
        resends_def)
qed

text \<open>
  The budget does count resends whose failure the interceptor rejects, such as a 404:
  three of them exhaust it.
\<close>

lemma retry_budget_counts_rejected_resends:
  "onRejected orders500
     [Fails orders404, Fails orders404, Fails orders404, Succeeds orders200] =
     (Rejected (Error ''Maximum Retry''),
      [SetTimeout 10000, Request ordersConfig, SetTimeout 10000, Request ordersConfig,
       SetTimeout 10000, Request ordersConfig], [Succeeds orders200])"
  by (simp add: onRejected.simps retryRequest.simps request.simps orders500_simps
      orders404_simps DEFAULT_RETRY_COUNT_def DEFAULT_RETRY_DELAY_def)

text \<open>
  C3. On the unauthenticated client, a request answered 500 whose first three resends
  are answered 500 as well is resent a fourth time, and is fulfilled when that resend is
  answered 200: each failed resend is handed to the response interceptor, which starts a
  new chain with the full budget, so the maximum-retry rejection is not reached. However
  many resends are answered 500, one more is made (each after the delay of 10000 ms)
  and the promise is still pending.
\<close>

theorem retry_budget_restarted_by_interceptor:
  "onRejected orders500
     [Fails orders500, Fails orders500, Fails orders500, Succeeds orders200] =
     (Resolved (Response orders200),
      [SetTimeout 10000, Request ordersConfig, SetTimeout 10000, Request ordersConfig,
       SetTimeout 10000, Request ordersConfig, SetTimeout 10000, Request ordersConfig], []) \<and>
   onRejected orders500 (replicate n (Fails orders500)) =
     (Pending, resends (Suc n) ordersConfig, []) \<and>
   length (filter (\<lambda>a. a = Request ordersConfig) (resends (Suc n) ordersConfig)) = Suc n"
proof -
  have a: "onRejected orders500
     [Fails orders500, Fails orders500, Fails orders500, Succeeds orders200] =
     (Resolved (Response orders200),
      [SetTimeout 10000, Request ordersConfig, SetTimeout 10000, Request ordersConfig,
       SetTimeout 10000, Request ordersConfig, SetTimeout 10000, Request ordersConfig], [])"
    by (simp add: onRejected.simps retryRequest.simps request.simps orders500_simps
        DEFAULT_RETRY_COUNT_def DEFAULT_RETRY_DELAY_def)
  have b: "onRejected orders500 (replicate n (Fails orders500)) =
     (Pending, resends (Suc n) ordersConfig, [])"
    using retryRequest_persistent_500 [of DEFAULT_RETRY_COUNT n]
    by (simp add: onRejected.simps orders500_simps DEFAULT_RETRY_COUNT_def)
  have c: "length (filter (\<lambda>a. a = Request ordersConfig) (resends k ordersConfig)) = k" for k
    by (induction k) (simp_all add: resends_def)
  show ?thesis
    using a b c [of "Suc n"] by simp
qed

section \<open>The unauthenticated client\<close>

text \<open>
  C9. On the unauthenticated client an error with no response and no status is taken as
  server-originated and handed to the retry chain, which arms one timer of 10000 ms and
  is then rejected with the missing-config error; no request is sent and the transport
  is left untouched.
\<close>

theorem onRejected_no_response:
  "err_response error = None \<Longrightarrow> err_status error = None \<Longrightarrow>
     onRejected error net = (Rejected (Error ''No response config''), [SetTimeout 10000], net)"
  by (simp add: onRejected.simps retryRequest.simps isErrorFromServer_def isUndefined_def
      DEFAULT_RETRY_COUNT_def DEFAULT_RETRY_DELAY_def)

theorem onRejected_no_response_witness:
  "onRejected networkError [Succeeds orders200] =
     (Rejected (Error ''No response config''), [SetTimeout 10000], [Succeeds orders200])"
proof -
  have r: "err_response networkError = None" and s: "err_status networkError = None"
    by (simp_all add: networkError_def)
  show ?thesis
    by (rule onRejected_no_response [OF r s])
qed

section \<open>The authenticated client: installing and removing the bearer interceptor\<close>

text \<open>
  C8. A second call of \<^verbatim>\<open>removeAuthRequestInterceptor\<close> right after a first one
  leaves the service as the first call left it: in particular no further ejection and no
  further token removal is made.
\<close>

theorem removeAuthRequestInterceptor_twice:
  "removeAuthRequestInterceptor (removeAuthRequestInterceptor st) =
     removeAuthRequestInterceptor st \<and>
   ejections (removeAuthRequestInterceptor (removeAuthRequestInterceptor st)) =
     ejections (removeAuthRequestInterceptor st) \<and>
   tokenRemovals (removeAuthRequestInterceptor (removeAuthRequestInterceptor st)) =
     tokenRemovals (removeAuthRequestInterceptor st)"
  by (simp add: removeAuthRequestInterceptor_def removeTokenFromCookie_def logEffects_def
      split: option.splits)

theorem removeAuthRequestInterceptor_twice_witness:
  "effects (removeAuthRequestInterceptor (setAuthRequestInterceptor ''t1'' newService)) =
     [Interceptors_eject 0, RemoveTokenFromCookie] \<and>
   effects (removeAuthRequestInterceptor
             (removeAuthRequestInterceptor (setAuthRequestInterceptor ''t1'' newService))) =
     [Interceptors_eject 0, RemoveTokenFromCookie]"
  using removeAuthRequestInterceptor_twice [of "setAuthRequestInterceptor ''t1'' newService"]
  by (simp add: removeAuthRequestInterceptor_def removeTokenFromCookie_def logEffects_def
      setAuthRequestInterceptor_def use_def newService_def)

text \<open>
  C10. When \<^verbatim>\<open>setAuthRequestInterceptor\<close> is called while an auth interceptor id is
  held, the request interceptors of the instance afterwards are the new bearer
  interceptor alone, at index 0: every interceptor that was installed before, of
  whatever origin, is gone.
\<close>

theorem setAuthRequestInterceptor_clears_all:
  "authRequestInterceptorId st \<noteq> None \<Longrightarrow>
     requestHandlers (setAuthRequestInterceptor t st) = [Some (AuthBearer t)] \<and>
     authRequestInterceptorId (setAuthRequestInterceptor t st) = Some 0 \<and>
     Some (Foreign k) \<notin> set (requestHandlers (setAuthRequestInterceptor t st))"
  by (simp add: setAuthRequestInterceptor_def logEffects_def clear_def use_def)

theorem setAuthRequestInterceptor_clears_all_witness:
  "requestHandlers
     (newService\<lparr>requestHandlers := [Some (AuthBearer ''t1''), Some (Foreign 7)],
                 authRequestInterceptorId := Some 0\<rparr>) =
     [Some (AuthBearer ''t1''), Some (Foreign 7)] \<and>
   requestHandlers
     (setAuthRequestInterceptor ''t2''
        (newService\<lparr>requestHandlers := [Some (AuthBearer ''t1''), Some (Foreign 7)],
                    authRequestInterceptorId := Some 0\<rparr>)) =
     [Some (AuthBearer ''t2'')]"
  using setAuthRequestInterceptor_clears_all
    [of "newService\<lparr>requestHandlers := [Some (AuthBearer ''t1''), Some (Foreign 7)],
                     authRequestInterceptorId := Some 0\<rparr>" "''t2''" 7]
  by simp

section \<open>The authenticated client: concurrent 401 answers\<close>

text \<open>
  A 401 that finds the lock held is queued without a reissue call of its own, and the
  lock is free when its handler returns, whoever held it.
\<close>

lemma queued_handler_releases_lock:
  assumes "\<not> isErrorFromRequest error" and "err_status error = Some 401"
    and "isApiRequestAuthLocked st"
  shows "fst (onAuthReject error st) = Queued (promises st)"
    and "\<not> isApiRequestAuthLocked (snd (onAuthReject error st))"
    and "reissueCalls (snd (onAuthReject error st)) = reissueCalls st"
    and "map fst (apiRequestMicrotaskQueueItem (snd (onAuthReject error st))) =
           map fst (apiRequestMicrotaskQueueItem st) @ [the (err_config error)]"
  using assms
  by (auto simp: onAuthReject_def onAuthRejectWith_def isErrorFromRequest_def
      isErrorFromServer_def isUnexpectedError_def isUndefined_def SERVER_ERROR_def
      UN_AUTHORIZED_def logEffects_def finallyBlock_def reissueCalls_def Let_def
      split: option.splits)

text \<open>
  C1. Three 401 answers reach the handler of a new service before any reissue call has
  been answered. The first takes the lock and makes the reissue call. The second is
  queued, and on its way out releases the lock while that call is still outstanding.
  The third therefore finds the lock free and makes a second reissue call.
\<close>

theorem three_401_two_reissue_calls:
  "(case onAuthReject orders401 newService of
      (r1, s1) \<Rightarrow>
        (case onAuthReject orders401 s1 of
           (r2, s2) \<Rightarrow>
             (case onAuthReject orders401 s2 of
                (r3, s3) \<Rightarrow>
                  r1 = AwaitingReissue ordersConfig \<and> isApiRequestAuthLocked s1 \<and>
                  r2 = Queued 0 \<and> reissueCalls s2 = 1 \<and> \<not> isApiRequestAuthLocked s2 \<and>
                  r3 = AwaitingReissue ordersConfig \<and> reissueCalls s3 = 2)))"
  by (simp add: onAuthReject_def onAuthRejectWith_def orders401_def newService_def
      isErrorFromRequest_def isErrorFromServer_def isUnexpectedError_def isUndefined_def
      SERVER_ERROR_def UN_AUTHORIZED_def logEffects_def finallyBlock_def refreshTokenCookie_def
      reissueCalls_def Let_def)

text \<open>
  C6. When the reissue call of a suspended handler is rejected, the handler reports to
  the console, removes the stored tokens once and reloads the page once, whatever the
  queue holds (the queue is left as it is); the lock is released, and the promise handed
  back to the caller is fulfilled with \<^verbatim>\<open>undefined\<close>, not rejected. The same happens
  when the failing step is the missing refresh credential.
\<close>

theorem reissue_failure_forces_logout:
  "fst (onAuthReject_resume config ReissueRejected st) = Settled (Resolved Undefined) \<and>
   effects (snd (onAuthReject_resume config ReissueRejected st)) =
     effects st @ [Console_error, RemoveTokenFromCookie, Location_reload] \<and>
   reloads (snd (onAuthReject_resume config ReissueRejected st)) = Suc (reloads st) \<and>
   tokenRemovals (snd (onAuthReject_resume config ReissueRejected st)) = Suc (tokenRemovals st) \<and>
   apiRequestMicrotaskQueueItem (snd (onAuthReject_resume config ReissueRejected st)) =
     apiRequestMicrotaskQueueItem st \<and>
   \<not> isApiRequestAuthLocked (snd (onAuthReject_resume config ReissueRejected st)) \<and>
   (\<not> isErrorFromRequest error \<and> err_status error = Some 401 \<and> \<not> isApiRequestAuthLocked st \<longrightarrow>
      fst (onAuthRejectWith [] error st) = Settled (Resolved Undefined) \<and>
      effects (snd (onAuthRejectWith [] error st)) =
        effects st @ [Console_error, Console_error, RemoveTokenFromCookie, Location_reload] \<and>
      \<not> isApiRequestAuthLocked (snd (onAuthRejectWith [] error st)))"
  by (auto simp: onAuthReject_resume_def onAuthRejectWith_def catchBlock_def finallyBlock_def
      logEffects_def removeTokenFromCookie_def reloads_def tokenRemovals_def Let_def
      isErrorFromRequest_def isErrorFromServer_def isUnexpectedError_def isUndefined_def
      SERVER_ERROR_def UN_AUTHORIZED_def split: option.splits)

theorem reissue_failure_forces_logout_witness:
  "fst (onAuthReject_resume ordersConfig ReissueRejected twoQueued) = Settled (Resolved Undefined) \<and>
   reloads (snd (onAuthReject_resume ordersConfig ReissueRejected twoQueued)) = 1 \<and>
   tokenRemovals (snd (onAuthReject_resume ordersConfig ReissueRejected twoQueued)) = 1 \<and>
   \<not> isErrorFromRequest orders401 \<and> err_status orders401 = Some 401 \<and>
   \<not> isApiRequestAuthLocked newService \<and>
   onAuthRejectWith [] orders401 newService =
     (Settled (Resolved Undefined),
      newService\<lparr>effects := [Console_error, Console_error, RemoveTokenFromCookie, Location_reload]\<rparr>)"
  using reissue_failure_forces_logout [of ordersConfig twoQueued orders401]
    reissue_failure_forces_logout [of ordersConfig newService orders401]
  by (simp add: twoQueued_def newService_def reloads_def tokenRemovals_def orders401_def
      isErrorFromRequest_def onAuthRejectWith_def isErrorFromServer_def isUnexpectedError_def
      isUndefined_def SERVER_ERROR_def UN_AUTHORIZED_def catchBlock_def finallyBlock_def
      logEffects_def removeTokenFromCookie_def Let_def)

section \<open>The administrative client\<close>

text \<open>
  C7. While the redirect state is set, the request interceptor lets a descriptor through
  unchanged when its URL is the sign-in path, and rejects any other with the fixed
  message, in which case the call ends without a request to the transport. While the
  state is not set, every descriptor is let through unchanged.
\<close>

theorem adminRequestFulfilled_gate:
  "(isRedirectingBy401Unauthorized st \<and> url config = Some ''/signin'' \<longrightarrow>
      adminRequestFulfilled config st = Continue config) \<and>
   (isRedirectingBy401Unauthorized st \<and> url config \<noteq> Some ''/signin'' \<longrightarrow>
      adminRequestFulfilled config st = Abort (Str ''Redirecting by 401 Unauthorized'') \<and>
      adminDispatch config st net = (Inl (Str ''Redirecting by 401 Unauthorized''), [], net)) \<and>
   (\<not> isRedirectingBy401Unauthorized st \<longrightarrow> adminRequestFulfilled config st = Continue config)"
  by (simp add: adminRequestFulfilled_def adminDispatch_def verifySigninConfig_def SIGNIN_def)

theorem adminRequestFulfilled_gate_witness:
  "isRedirectingBy401Unauthorized (newAdmin (Some ''true'') ''/orders'') \<and>
   adminRequestFulfilled ordersConfig (newAdmin (Some ''true'') ''/orders'') =
     Abort (Str ''Redirecting by 401 Unauthorized'') \<and>
   adminDispatch ordersConfig (newAdmin (Some ''true'') ''/orders'') [Succeeds orders200] =
     (Inl (Str ''Redirecting by 401 Unauthorized''), [], [Succeeds orders200]) \<and>
   adminRequestFulfilled (ordersConfig\<lparr>url := Some ''/signin''\<rparr>)
     (newAdmin (Some ''true'') ''/orders'') = Continue (ordersConfig\<lparr>url := Some ''/signin''\<rparr>) \<and>
   \<not> isRedirectingBy401Unauthorized ordersAdmin \<and>
   adminRequestFulfilled ordersConfig ordersAdmin = Continue ordersConfig"
  using adminRequestFulfilled_gate
      [of "newAdmin (Some ''true'') ''/orders''" ordersConfig "[Succeeds orders200]"]
    adminRequestFulfilled_gate
      [of "newAdmin (Some ''true'') ''/orders''" "ordersConfig\<lparr>url := Some ''/signin''\<rparr>" "[]"]
    adminRequestFulfilled_gate [of ordersAdmin ordersConfig "[]"]
  by (simp add: newAdmin_def ordersAdmin_def ordersConfig_def)

text \<open>
  C5. Whatever error the response interceptor of the administrative client is given, and
  in whatever state, the promise it returns is rejected with that same error. This
  covers every 401: on the sign-in page, in the redirect state, or arming the redirect.
\<close>

theorem adminResponseRejected_rejects:
  "fst (adminResponseRejected error st) = Rejected (AxiosErr error)"
  by (simp add: adminResponseRejected_def Let_def split: option.splits prod.splits)

theorem adminResponseRejected_rejects_witness:
  "fst (adminResponseRejected orders401 (newAdmin None ''/signin'')) = Rejected (AxiosErr orders401) \<and>
   fst (adminResponseRejected orders401 (newAdmin (Some ''true'') ''/orders'')) =
     Rejected (AxiosErr orders401) \<and>
   fst (adminResponseRejected orders401 ordersAdmin) = Rejected (AxiosErr orders401)"
  using adminResponseRejected_rejects by simp

subsection \<open>The redirect timer\<close>

lemma is401:
  assumes "err_response error = Some r" and "res_status r = 401" and "err_config error \<noteq> None"
  shows "\<not> isErrorFromRequest error" and "\<not> isErrorFromServer (Some 401)"
    and "\<not> isUnexpectedError (Some 401)"
  using assms
  by (auto simp: isErrorFromRequest_def isErrorFromServer_def isUnexpectedError_def
      isUndefined_def SERVER_ERROR_def UN_AUTHORIZED_def)

lemma reportError_frame:
  "pendingTimers (reportError st) = pendingTimers st"
  "redirectTimeout (reportError st) = redirectTimeout st"
  "timersArmed (reportError st) = timersArmed st"
  "timersCleared (reportError st) = timersCleared st"
  "isRedirectingBy401Unauthorized (reportError st) = isRedirectingBy401Unauthorized st"
  "location_pathname (reportError st) = location_pathname st"
  by (simp_all add: reportError_def consoleError_def generateErrorMessage_def split: option.splits)

lemma generateErrorMessage_frame:
  "pendingTimers (generateErrorMessage m st) = pendingTimers st"
  "redirectTimeout (generateErrorMessage m st) = redirectTimeout st"
  "timersArmed (generateErrorMessage m st) = timersArmed st"
  "timersCleared (generateErrorMessage m st) = timersCleared st"
  by (simp_all add: generateErrorMessage_def)

lemma executeUnAuthorized_frame:
  "pendingTimers (executeUnAuthorized st) = pendingTimers st"
  "redirectTimeout (executeUnAuthorized st) = redirectTimeout st"
  "timersArmed (executeUnAuthorized st) = timersArmed st"
  "timersCleared (executeUnAuthorized st) = timersCleared st"
  by (simp_all add: executeUnAuthorized_def)

lemma rejected_401:
  assumes "err_response error = Some r" and "res_status r = 401" and "err_config error \<noteq> None"
  shows "adminResponseRejected error st =
     (Rejected (AxiosErr error),
      if location_pathname st = ''/signin'' then executeUnAuthorized (reportError st)
      else if isRedirectingBy401Unauthorized st then reportError st
      else scheduleRedirect (reportError st))"
  using assms is401 [OF assms]
  by (simp add: adminResponseRejected_def Let_def isSigninPage_def SIGNIN_def reportError_frame)

lemma scheduleRedirect_effect:
  "isRedirectingBy401Unauthorized (scheduleRedirect st)"
  "sessionStorage_UNAUTHORIZED (scheduleRedirect st) = Some ''true''"
  "toasts (scheduleRedirect st) = toasts st @ [(Toast_error, ExpiredCountdown 5)]"
  "timersCleared (scheduleRedirect st) =
     timersCleared st @ (case redirectTimeout st of None \<Rightarrow> [] | Some h \<Rightarrow> [h])"
  "pendingTimers (scheduleRedirect st) =
     (case redirectTimeout st of None \<Rightarrow> pendingTimers st
      | Some h \<Rightarrow> filter (\<lambda>t. fst t \<noteq> h) (pendingTimers st)) @ [(timersArmed st, 5000)]"
  "redirectTimeout (scheduleRedirect st) = Some (timersArmed st)"
  "timersArmed (scheduleRedirect st) = Suc (timersArmed st)"
  "location_pathname (scheduleRedirect st) = location_pathname st"
  by (simp_all add: scheduleRedirect_def Let_def executeUnAuthorized_def clearTimeout_def
      generateErrorMessage_def setTimeout_def redirectTime_def split: option.splits)

lemma rejected_timers:
  "pendingTimers (snd (adminResponseRejected error st)) = pendingTimers st \<and>
   redirectTimeout (snd (adminResponseRejected error st)) = redirectTimeout st \<or>
   pendingTimers (snd (adminResponseRejected error st)) =
     (case redirectTimeout st of None \<Rightarrow> pendingTimers st
      | Some h \<Rightarrow> filter (\<lambda>t. fst t \<noteq> h) (pendingTimers st)) @ [(timersArmed st, 5000)] \<and>
   redirectTimeout (snd (adminResponseRejected error st)) = Some (timersArmed st)"
  by (simp add: adminResponseRejected_def Let_def reportError_frame generateErrorMessage_frame
      executeUnAuthorized_frame scheduleRedirect_effect split: option.splits)

lemma oneTimer_cases:
  "oneTimer st \<Longrightarrow>
     pendingTimers st = [] \<or> (\<exists>h d. pendingTimers st = [(h, d)] \<and> redirectTimeout st = Some h)"
  by (cases "pendingTimers st") (auto simp: oneTimer_def)

lemma oneTimer_length: "oneTimer st \<Longrightarrow> length (pendingTimers st) \<le> 1"
  using oneTimer_cases [of st] by auto

lemma oneTimer_rejected: "oneTimer st \<Longrightarrow> oneTimer (snd (adminResponseRejected error st))"
  using rejected_timers [of error st] oneTimer_cases [of st]
  by (auto simp: oneTimer_def split: option.splits)

lemma oneTimer_fulfilled: "oneTimer st \<Longrightarrow> oneTimer (snd (adminResponseFulfilled r st))"
  by (simp add: oneTimer_def adminResponseFulfilled_def Let_def resetUnAuthorizedState_def
      generateSuccessMessage_def split: option.splits)

lemma oneTimer_fires: "oneTimer st \<Longrightarrow> oneTimer (timerFires h st)"
  using oneTimer_cases [of st]
  by (auto simp: oneTimer_def timerFires_def redirectCallback_def clearTimeout_def
      split: option.splits)

lemma oneTimer_step: "oneTimer st \<Longrightarrow> oneTimer (adminStep st ev)"
  by (cases ev) (simp_all add: oneTimer_rejected oneTimer_fulfilled oneTimer_fires,
      simp_all add: oneTimer_def setMessageOption_def)

lemma oneTimer_run: "oneTimer st \<Longrightarrow> oneTimer (adminRun evs st)"
  unfolding adminRun_def by (induction evs arbitrary: st) (simp_all add: oneTimer_step)

lemma oneTimer_new: "oneTimer (newAdmin stored path)"
  by (simp add: oneTimer_def newAdmin_def)

lemma orders401_is401:
  "err_response orders401 = Some \<lparr>res_status = 401, res_config = Some ordersConfig\<rparr>"
  "res_status \<lparr>res_status = 401, res_config = Some ordersConfig\<rparr> = 401"
  "err_config orders401 \<noteq> None"
  by (simp_all add: orders401_def)

lemma ordersAdmin_simps:
  "location_pathname ordersAdmin = ''/orders''" "\<not> isRedirectingBy401Unauthorized ordersAdmin"
  "redirectTimeout ordersAdmin = None" "pendingTimers ordersAdmin = []"
  "timersArmed ordersAdmin = 0" "timersCleared ordersAdmin = []" "errorMessage ordersAdmin = None"
  by (simp_all add: ordersAdmin_def newAdmin_def)

lemma adminRun_simps:
  "adminRun [] st = st" "adminRun (ev # evs) st = adminRun evs (adminStep st ev)"
  by (simp_all add: adminRun_def)

lemma after_401_simps:
  "location_pathname (adminRun [Failed orders401] ordersAdmin) = ''/orders''"
  "isRedirectingBy401Unauthorized (adminRun [Failed orders401] ordersAdmin)"
  "pendingTimers (adminRun [Failed orders401] ordersAdmin) = [(0, 5000)]"
  "timersCleared (adminRun [Failed orders401] ordersAdmin) = []"
  by (simp_all add: adminRun_simps rejected_401 [OF orders401_is401] reportError_frame
      scheduleRedirect_effect ordersAdmin_simps)

lemma after_401_200_simps:
  "location_pathname (adminRun [Failed orders401, Fulfilled orders200] ordersAdmin) = ''/orders''"
  "\<not> isRedirectingBy401Unauthorized (adminRun [Failed orders401, Fulfilled orders200] ordersAdmin)"
  "redirectTimeout (adminRun [Failed orders401, Fulfilled orders200] ordersAdmin) = Some 0"
  "timersArmed (adminRun [Failed orders401, Fulfilled orders200] ordersAdmin) = 1"
  "timersCleared (adminRun [Failed orders401, Fulfilled orders200] ordersAdmin) = []"
  by (simp_all add: adminRun_simps rejected_401 [OF orders401_is401] reportError_frame
      scheduleRedirect_effect ordersAdmin_simps adminResponseFulfilled_def Let_def
      resetUnAuthorizedState_def generateSuccessMessage_def split: option.splits)

theorem second_401_keeps_timer:
  "pendingTimers (adminRun [Failed orders401] ordersAdmin) = [(0, 5000)] \<and>
   pendingTimers (adminRun [Failed orders401, Failed orders401] ordersAdmin) = [(0, 5000)] \<and>
   timersCleared (adminRun [Failed orders401, Failed orders401] ordersAdmin) = [] \<and>
   timersArmed (adminRun [Failed orders401, Failed orders401] ordersAdmin) = 1"
  by (simp add: adminRun_simps rejected_401 [OF orders401_is401] reportError_frame
      scheduleRedirect_effect ordersAdmin_simps)

text \<open>
  C4, amended. For an administrative client in any state it can reach, off the sign-in
  page: at most one redirect timer is pending before and after a 401, and the 401 is
  rejected. If the redirect state is not set, the 401 clears the timer held so far,
  marks the state in memory and in storage, emits the countdown notification and arms
  one timer of 5000 ms, the only one pending, whose firing moves the page to the sign-in
  path. If the redirect state is set, as it is for a second 401 arriving before the
  timer fires, the 401 clears no timer and arms none: the pending timer stays as it is.
\<close>

theorem admin_401_redirect:
  assumes "st = adminRun evs (newAdmin stored path)"
    and "err_response error = Some r" and "res_status r = 401" and "err_config error \<noteq> None"
    and "location_pathname st \<noteq> ''/signin''"
  shows "length (pendingTimers st) \<le> 1 \<and>
     fst (adminResponseRejected error st) = Rejected (AxiosErr error) \<and>
     length (pendingTimers (snd (adminResponseRejected error st))) \<le> 1 \<and>
     (\<not> isRedirectingBy401Unauthorized st \<longrightarrow>
        (case adminResponseRejected error st of
           (res, st') \<Rightarrow>
             timersCleared st' =
               timersCleared st @ (case redirectTimeout st of None \<Rightarrow> [] | Some h \<Rightarrow> [h]) \<and>
             isRedirectingBy401Unauthorized st' \<and>
             sessionStorage_UNAUTHORIZED st' = Some ''true'' \<and>
             last (toasts st') = (Toast_error, ExpiredCountdown 5) \<and>
             pendingTimers st' = [(timersArmed st, 5000)] \<and>
             redirectTimeout st' = Some (timersArmed st) \<and>
             timersArmed st' = Suc (timersArmed st) \<and>
             location_pathname (timerFires (timersArmed st) st') = ''/signin'')) \<and>
     (isRedirectingBy401Unauthorized st \<longrightarrow>
        (case adminResponseRejected error st of
           (res, st') \<Rightarrow>
             pendingTimers st' = pendingTimers st \<and> redirectTimeout st' = redirectTimeout st \<and>
             timersArmed st' = timersArmed st \<and> timersCleared st' = timersCleared st))"
proof -
  have inv: "oneTimer st"
    using assms(1) by (simp add: oneTimer_run oneTimer_new)
  have rej: "adminResponseRejected error st =
     (Rejected (AxiosErr error),
      if isRedirectingBy401Unauthorized st then reportError st
      else scheduleRedirect (reportError st))"
    using rejected_401 [OF assms(2,3,4), of st] assms(5) by simp
  have one: "length (pendingTimers st) \<le> 1"
    by (rule oneTimer_length [OF inv])
  have after: "length (pendingTimers (snd (adminResponseRejected error st))) \<le> 1"
    by (rule oneTimer_length [OF oneTimer_rejected [OF inv]])
  have cleared: "(case redirectTimeout st of None \<Rightarrow> pendingTimers (reportError st)
      | Some h \<Rightarrow> filter (\<lambda>t. fst t \<noteq> h) (pendingTimers (reportError st))) = []"
    using oneTimer_cases [OF inv] by (auto simp: reportError_frame split: option.splits)
  have first: "\<not> isRedirectingBy401Unauthorized st \<Longrightarrow>
      location_pathname (timerFires (timersArmed st) (scheduleRedirect (reportError st))) = ''/signin''"
    using assms(5)
    by (simp add: timerFires_def redirectCallback_def isSigninPage_def SIGNIN_def
        scheduleRedirect_effect reportError_frame)
  show ?thesis
    using one after cleared first
    by (simp add: rej scheduleRedirect_effect reportError_frame del: One_nat_def)
qed

theorem admin_401_redirect_witness:
  "pendingTimers (snd (adminResponseRejected orders401
      (adminRun [Failed orders401, Fulfilled orders200] ordersAdmin))) = [(1, 5000)] \<and>
   timersCleared (snd (adminResponseRejected orders401
      (adminRun [Failed orders401, Fulfilled orders200] ordersAdmin))) = [0] \<and>
   pendingTimers (snd (adminResponseRejected orders401
      (adminRun [Failed orders401] ordersAdmin))) = [(0, 5000)] \<and>
   timersCleared (snd (adminResponseRejected orders401
      (adminRun [Failed orders401] ordersAdmin))) = []"
proof -
  have p1: "location_pathname (adminRun [Failed orders401, Fulfilled orders200]
      (newAdmin None ''/orders'')) \<noteq> ''/signin''"
    using after_401_200_simps(1) by (simp add: ordersAdmin_def)
  have p2: "location_pathname (adminRun [Failed orders401] (newAdmin None ''/orders'')) \<noteq> ''/signin''"
    using after_401_simps(1) by (simp add: ordersAdmin_def)
  show ?thesis
    using admin_401_redirect [OF refl orders401_is401 p1] admin_401_redirect [OF refl orders401_is401 p2]
      after_401_simps after_401_200_simps
    by (simp add: ordersAdmin_def split: prod.splits)
qed

end
